theory Spec2Isabelle
  imports Complex_Main "HOL-Library.Char_ord" "HOL-Library.List_Lexorder"
begin

section \<open>Tables\<close>

text \<open>
  A pandas DataFrame as the program uses it: an ordered list of named, typed columns and
  a list of rows, each row carrying its index label and one cell per column.  A missing
  value (NaN, None, NaT) is the cell \<open>Null\<close>.  What a numeric cell holds is a value of
  the type \<open>'n\<close>, a parameter of the model: for the program, the int64 and float64
  values other than NaN.  A column is addressed by its position where the program
  addresses it by name; the two agree when the names are distinct, as they are in every
  frame \<open>read_csv\<close> returns.  In a numeric column every cell is a number or missing.
\<close>

datatype dtype = Int64 | Float64 | Object | Boolean | Datetime64

datatype 'n cell = Null | Num 'n | Str string | Flag bool | Stamp int

record 'n table =
  columns :: "(string \<times> dtype) list"
  rows :: "(int \<times> 'n cell list) list"

text \<open>\<open>select_dtypes(include=[np.number])\<close>: the integer and float columns, by position.\<close>

definition is_numeric :: "dtype \<Rightarrow> bool" where
  "is_numeric d = (d = Int64 \<or> d = Float64)"

definition numeric_columns :: "'n table \<Rightarrow> nat list" where
  "numeric_columns df = filter (\<lambda>j. is_numeric (snd (columns df ! j))) [0..<length (columns df)]"

text \<open>\<open>df[col]\<close>: the cells of the column at position \<open>j\<close>, in row order.\<close>

definition column :: "'n table \<Rightarrow> nat \<Rightarrow> 'n cell list" where
  "column df j = map (\<lambda>r. snd r ! j) (rows df)"

text \<open>\<open>series.notna().sum()\<close>\<close>

definition notna_sum :: "'n cell list \<Rightarrow> nat" where
  "notna_sum cs = length (filter (\<lambda>c. c \<noteq> Null) cs)"

text \<open>The non-null numbers of a column, in row order.\<close>

fun numbers :: "'n cell list \<Rightarrow> 'n list" where
  "numbers [] = []"
| "numbers (Num x # cs) = x # numbers cs"
| "numbers (c # cs) = numbers cs"

text \<open>
  \<open>df.drop_duplicates()\<close>: a row is dropped when its cells equal those of an earlier
  row (the index label is not compared, and two missing values count as equal); the
  first occurrence is kept with its label.
\<close>

fun keep_first ::
  "'n cell list list \<Rightarrow> (int \<times> 'n cell list) list \<Rightarrow> (int \<times> 'n cell list) list" where
  "keep_first seen [] = []"
| "keep_first seen (r # rs) =
     (if snd r \<in> set seen then keep_first seen rs else r # keep_first (snd r # seen) rs)"

definition drop_duplicates :: "'n table \<Rightarrow> 'n table" where
  "drop_duplicates df = df\<lparr>rows := keep_first [] (rows df)\<rparr>"

text \<open>\<open>df.dropna()\<close>: the rows without a missing value.\<close>

definition dropna_rows :: "(int \<times> 'n cell list) list \<Rightarrow> (int \<times> 'n cell list) list" where
  "dropna_rows rs = filter (\<lambda>r. Null \<notin> set (snd r)) rs"

definition dropna :: "'n table \<Rightarrow> 'n table" where
  "dropna df = df\<lparr>rows := dropna_rows (rows df)\<rparr>"

text \<open>\<open>df[cols]\<close> for a list of column positions, row by row.\<close>

definition select_rows ::
  "nat list \<Rightarrow> (int \<times> 'n cell list) list \<Rightarrow> (int \<times> 'n cell list) list" where
  "select_rows js rs = map (\<lambda>r. (fst r, map (\<lambda>j. snd r ! j) js)) rs"

text \<open>
  \<open>df.loc[labels]\<close> for a list of labels taken from the frame's own index: for each
  label in turn, the rows that carry it.
\<close>

definition loc :: "(int \<times> 'n cell list) list \<Rightarrow> int list \<Rightarrow> (int \<times> 'n cell list) list" where
  "loc rs labels = concat (map (\<lambda>l. filter (\<lambda>r. fst r = l) rs) labels)"

text \<open>\<open>df.head(n)\<close>\<close>

definition head :: "nat \<Rightarrow> 'n table \<Rightarrow> 'n table" where
  "head n df = df\<lparr>rows := take n (rows df)\<rparr>"

text \<open>\<open>df.empty\<close>: an axis of length 0.\<close>

definition empty_frame :: "'n table \<Rightarrow> bool" where
  "empty_frame df = (rows df = [] \<or> columns df = [])"

text \<open>Every row has one cell per column, as in any DataFrame.\<close>

definition rectangular :: "'n table \<Rightarrow> bool" where
  "rectangular df = list_all (\<lambda>r. length (snd r) = length (columns df)) (rows df)"

section \<open>Floating-point arithmetic\<close>

text \<open>
  The program computes with numpy's and Python's float64.  Its arithmetic is a parameter
  of the model: \<open>'v\<close> is what a computation yields (a float64, which may be infinite or
  NaN), and the record below holds the operations the program calls, each with the
  place it is called from.  Every theorem about the quality report and the fills holds
  for every such arithmetic, so for float64 as it is.

  \<^item> \<open>quantile\<close>: \<open>series.quantile(q)\<close> of the non-null values of a column;
  \<^item> \<open>mean\<close>, \<open>median\<close>: \<open>series.mean()\<close> and \<open>series.median()\<close> of the non-null
    values, \<open>None\<close> when the result is NaN (as it is on no values);
  \<^item> \<open>fsub\<close>, \<open>fadd\<close>: \<open>a - b\<close> and \<open>a + b\<close> on floats;
  \<^item> \<open>fmul\<close>: \<open>c * x\<close> for a literal \<open>c\<close> (1.5 and 100 in the source);
  \<^item> \<open>below\<close>, \<open>above\<close>: \<open>df[col] < bound\<close> and \<open>df[col] > bound\<close> for one value of
    the column (false when the bound is NaN);
  \<^item> \<open>fdiv\<close>: \<open>a / b\<close> for two counts, \<open>b\<close> not zero;
  \<^item> \<open>round2\<close>: \<open>round(x, 2)\<close>.
\<close>

record ('n, 'v) arith =
  quantile :: "'n list \<Rightarrow> real \<Rightarrow> 'v"
  mean :: "'n list \<Rightarrow> 'n option"
  median :: "'n list \<Rightarrow> 'n option"
  fsub :: "'v \<Rightarrow> 'v \<Rightarrow> 'v"
  fadd :: "'v \<Rightarrow> 'v \<Rightarrow> 'v"
  fmul :: "real \<Rightarrow> 'v \<Rightarrow> 'v"
  below :: "'n \<Rightarrow> 'v \<Rightarrow> bool"
  above :: "'n \<Rightarrow> 'v \<Rightarrow> bool"
  fdiv :: "nat \<Rightarrow> nat \<Rightarrow> 'v"
  round2 :: "'v \<Rightarrow> 'v"

text \<open>
  Arithmetic without rounding, on the reals.  float64 computes the same as long as every
  operand and every result is a binary fraction of moderate size; the sample inputs
  below are chosen so.  \<open>linear_quantile\<close> is pandas' default linear interpolation:
  position \<open>q * (n - 1)\<close> in the sorted values, interpolated between its two neighbours
  (on no values, where pandas answers NaN, it is 0; no caller gets there).
  \<open>half_even2\<close> rounds to two decimals, a tie going to the even neighbour.
\<close>

definition linear_quantile :: "real list \<Rightarrow> real \<Rightarrow> real" where
  "linear_quantile vs q =
     (if vs = [] then 0
      else let s = sort vs;
               h = q * real (length s - 1);
               lo = nat \<lfloor>h\<rfloor>;
               hi = min (lo + 1) (length s - 1)
           in s ! lo + (h - real lo) * (s ! hi - s ! lo))"

definition exact_mean :: "real list \<Rightarrow> real option" where
  "exact_mean vs = (if vs = [] then None else Some (sum_list vs / real (length vs)))"

definition exact_median :: "real list \<Rightarrow> real option" where
  "exact_median vs =
     (if vs = [] then None
      else let s = sort vs; n = length s
           in if odd n then Some (s ! (n div 2))
              else Some ((s ! (n div 2 - 1) + s ! (n div 2)) / 2))"

definition rint :: "real \<Rightarrow> int" where
  "rint x =
     (let f = \<lfloor>x\<rfloor>; d = x - of_int f
      in if d < 1 / 2 then f else if 1 / 2 < d then f + 1 else if even f then f else f + 1)"

definition half_even2 :: "real \<Rightarrow> real" where
  "half_even2 x = of_int (rint (x * 100)) / 100"

definition exact :: "(real, real) arith" where
  "exact =
     \<lparr>quantile = linear_quantile,
      mean = exact_mean,
      median = exact_median,
      fsub = (\<lambda>a b. a - b),
      fadd = (\<lambda>a b. a + b),
      fmul = (\<lambda>c x. c * x),
      below = (\<lambda>x b. x < b),
      above = (\<lambda>x b. b < x),
      fdiv = (\<lambda>a b. real a / real b),
      round2 = half_even2\<rparr>"

section \<open>The most frequent value\<close>

text \<open>
  \<open>series.mode().iloc[0]\<close>: the most frequent non-null value, the least one when
  several are equally frequent (pandas sorts the modes); \<open>None\<close> when \<open>mode()\<close> is
  empty.  Values of one kind are compared as Python compares them; a column mixing
  kinds, which pandas cannot sort, is outside the model.
\<close>

fun cell_less :: "'n::linorder cell \<Rightarrow> 'n cell \<Rightarrow> bool" where
  "cell_less (Num a) (Num b) = (a < b)"
| "cell_less (Str a) (Str b) = (a < b)"
| "cell_less (Flag a) (Flag b) = (a < b)"
| "cell_less (Stamp a) (Stamp b) = (a < b)"
| "cell_less _ _ = False"

definition mode_first :: "'n::linorder cell list \<Rightarrow> 'n cell option" where
  "mode_first cs =
     (let vs = filter (\<lambda>c. c \<noteq> Null) cs;
          ds = remdups vs;
          m = fold max (map (count_list vs) ds) 0;
          ms = filter (\<lambda>v. count_list vs v = m) ds
      in case ms of [] \<Rightarrow> None
         | v # rest \<Rightarrow> Some (fold (\<lambda>c best. if cell_less c best then c else best) rest v))"

section \<open>Quality report\<close>

record 'v missing_entry =
  count :: nat
  percentage :: 'v

record 'v outlier_entry = "'v missing_entry" +
  lower_bound :: 'v
  upper_bound :: 'v

record 'v quality_info =
  total_rows :: nat
  total_columns :: nat
  missing_data :: "(string \<times> 'v missing_entry) list"
  duplicate_rows :: nat
  data_types :: "(string \<times> dtype) list"
  outliers :: "(string \<times> 'v outlier_entry) list"

text \<open>
  Lines 107 to 111 of \<open>get_data_quality_info\<close>, the IQR method on the non-null values
  of a column: the quartiles, their distance and the two bounds.
\<close>

record 'v iqr_fit =
  Q1 :: 'v
  Q3 :: 'v
  IQR :: 'v
  lower :: 'v
  upper :: 'v

definition iqr_method :: "('n, 'v) arith \<Rightarrow> 'n list \<Rightarrow> 'v iqr_fit" where
  "iqr_method fp vs =
     (let q1 = quantile fp vs 0.25;
          q3 = quantile fp vs 0.75;
          iqr = fsub fp q3 q1
      in \<lparr>Q1 = q1, Q3 = q3, IQR = iqr,
          lower = fsub fp q1 (fmul fp 1.5 iqr),
          upper = fadd fp q3 (fmul fp 1.5 iqr)\<rparr>)"

text \<open>
  Line 113, the selection \<open>(df[col] < lower_bound) | (df[col] > upper_bound)\<close>: a
  missing value compares false on both sides, so the selected values are the non-null
  values strictly outside the bounds.
\<close>

definition is_outlier :: "('n, 'v) arith \<Rightarrow> 'v iqr_fit \<Rightarrow> 'n \<Rightarrow> bool" where
  "is_outlier fp b x = (below fp x (lower b) \<or> above fp x (upper b))"

text \<open>
  The body of the loop over the numeric columns (lines 104 to 121), for one column.
  Nothing in it raises on a frame of the model, so the \<open>except\<close> of line 122 has no
  case here.
\<close>

definition outlier_entry_of ::
  "('n, 'v) arith \<Rightarrow> 'n table \<Rightarrow> nat \<Rightarrow> (string \<times> 'v outlier_entry) option" where
  "outlier_entry_of fp df j =
     (if 10 < notna_sum (column df j) then
        (let b = iqr_method fp (numbers (column df j));
             outl = filter (is_outlier fp b) (numbers (column df j))
         in if 0 < length outl then
              Some (fst (columns df ! j),
                \<lparr>count = length outl,
                 percentage = round2 fp (fmul fp 100 (fdiv fp (length outl) (length (rows df)))),
                 lower_bound = lower b,
                 upper_bound = upper b\<rparr>)
            else None)
      else None)"

definition missing_entry_of ::
  "('n, 'v) arith \<Rightarrow> 'n table \<Rightarrow> nat \<Rightarrow> (string \<times> 'v missing_entry) option" where
  "missing_entry_of fp df j =
     (let missing_count = length (filter (\<lambda>c. c = Null) (column df j))
      in if 0 < missing_count then
           Some (fst (columns df ! j),
             \<lparr>count = missing_count,
              percentage = round2 fp (fmul fp 100 (fdiv fp missing_count (length (rows df))))\<rparr>)
         else None)"

definition get_data_quality_info :: "('n, 'v) arith \<Rightarrow> 'n table \<Rightarrow> 'v quality_info" where
  "get_data_quality_info fp df =
     \<lparr>total_rows = length (rows df),
      total_columns = length (columns df),
      missing_data = List.map_filter (missing_entry_of fp df) [0..<length (columns df)],
      duplicate_rows = length (rows df) - length (keep_first [] (rows df)),
      data_types = columns df,
      outliers = List.map_filter (outlier_entry_of fp df) (numeric_columns df)\<rparr>"

section \<open>Cleaning operations\<close>

text \<open>
  \<open>df[col] = df[col].fillna(v)\<close>: the missing cells of column \<open>j\<close> become \<open>v\<close>.
  Filling with NaN (the mean of no values) changes nothing, which is the \<open>None\<close> case
  of \<open>fill_numeric\<close> below.
\<close>

definition fillna_column ::
  "nat \<Rightarrow> 'n cell \<Rightarrow> (int \<times> 'n cell list) list \<Rightarrow> (int \<times> 'n cell list) list" where
  "fillna_column j v rs = map (\<lambda>r. (fst r, if snd r ! j = Null then (snd r)[j := v] else snd r)) rs"

text \<open>
  \<open>df[numeric_columns] = df[numeric_columns].fillna(df[numeric_columns].mean())\<close>, and
  the same with \<open>median()\<close>: each numeric column is filled with its own statistic
  \<open>stat\<close>, taken from the frame as it was before the assignment.
\<close>

definition fill_numeric :: "('n list \<Rightarrow> 'n option) \<Rightarrow> 'n table \<Rightarrow> 'n table" where
  "fill_numeric stat df =
     df\<lparr>rows := fold (\<lambda>j rs. case stat (numbers (column df j)) of
                               None \<Rightarrow> rs
                             | Some m \<Rightarrow> fillna_column j (Num m) rs)
                    (numeric_columns df) (rows df)\<rparr>"

text \<open>The loop of the \<open>fill_mode\<close> branch: one object column after the other.\<close>

definition fill_mode :: "'n::linorder table \<Rightarrow> 'n table" where
  "fill_mode df =
     df\<lparr>rows := fold (\<lambda>j rs. if snd (columns df ! j) = Object
                             then fillna_column j
                                    (case mode_first (map (\<lambda>r. snd r ! j) rs) of
                                       None \<Rightarrow> Str ''Unknown''
                                     | Some v \<Rightarrow> v) rs
                             else rs)
                    [0..<length (columns df)] (rows df)\<rparr>"

text \<open>
  Python passes a DataFrame by reference.  The store is the list of the frames that
  exist, a reference is a position in it: an operation that builds a new frame appends
  it, an assignment into a frame replaces it where it is.
\<close>

type_synonym 'n store = "'n table list"

definition alloc :: "'n store \<Rightarrow> 'n table \<Rightarrow> nat \<times> 'n store" where
  "alloc h df = (length h, h @ [df])"

text \<open>The frame a call returned.\<close>

definition returned :: "nat \<times> 'n store \<Rightarrow> 'n table" where
  "returned p = snd p ! fst p"

text \<open>
  \<open>DataProcessor.handle_missing_values\<close>.  None of the pandas calls raises on a frame
  of the model, so the \<open>except\<close> branch (which returns \<open>df\<close>) has no case here.
  The three fills assign into \<open>df\<close> itself and return it.
\<close>

definition handle_missing_values_ref ::
  "('n::linorder, 'v) arith \<Rightarrow> 'n store \<Rightarrow> nat \<Rightarrow> string \<Rightarrow> nat \<times> 'n store" where
  "handle_missing_values_ref fp h df strategy =
     (if strategy = ''drop'' then alloc h (dropna (h ! df))
      else if strategy = ''fill_mean'' then (df, h[df := fill_numeric (mean fp) (h ! df)])
      else if strategy = ''fill_median'' then (df, h[df := fill_numeric (median fp) (h ! df)])
      else if strategy = ''fill_mode'' then (df, h[df := fill_mode (h ! df)])
      else (df, h))"

text \<open>\<open>DataProcessor.remove_duplicates\<close>\<close>

definition remove_duplicates_ref :: "'n store \<Rightarrow> nat \<Rightarrow> nat \<times> 'n store" where
  "remove_duplicates_ref h df = alloc h (drop_duplicates (h ! df))"

text \<open>
  \<open>DataProcessor.remove_outliers\<close>.  The isolation forest
  (\<open>IsolationForest(contamination=0.1, random_state=42).fit_predict\<close>) is a parameter:
  it maps the matrix of the complete rows to one label per row, 1 for an inlier and -1
  for an outlier, or raises (\<open>None\<close>).  Whatever raises inside the \<open>try\<close> ends in the
  \<open>except\<close> branch, which returns \<open>df\<close>: a cell that is no number, a failing fit, a
  label array of the wrong length.
\<close>

type_synonym 'n fit_predict = "'n list list \<Rightarrow> int list option"

fun as_float :: "'n cell \<Rightarrow> 'n option" where
  "as_float (Num x) = Some x"
| "as_float _ = None"

definition as_matrix :: "(int \<times> 'n cell list) list \<Rightarrow> 'n list list option" where
  "as_matrix rs = those (map (\<lambda>r. those (map as_float (snd r))) rs)"

definition valid_columns :: "'n table \<Rightarrow> nat list" where
  "valid_columns df = filter (\<lambda>j. 10 < notna_sum (column df j)) (numeric_columns df)"

definition remove_outliers_ref :: "'n fit_predict \<Rightarrow> 'n store \<Rightarrow> nat \<Rightarrow> nat \<times> 'n store" where
  "remove_outliers_ref iso_forest h df =
     (if numeric_columns (h ! df) = [] then (df, h)
      else if valid_columns (h ! df) = [] then (df, h)
      else
        let data_for_outliers = dropna_rows (select_rows (valid_columns (h ! df)) (rows (h ! df)))
        in if length data_for_outliers < 10 then (df, h)
           else
             (case as_matrix data_for_outliers of
                None \<Rightarrow> (df, h)
              | Some X \<Rightarrow>
                 (case iso_forest X of
                    None \<Rightarrow> (df, h)
                  | Some outlier_labels \<Rightarrow>
                      if length outlier_labels \<noteq> length data_for_outliers then (df, h)
                      else
                        let non_outlier_indices =
                              map (\<lambda>p. fst (fst p))
                                (filter (\<lambda>p. snd p = 1) (zip data_for_outliers outlier_labels))
                        in alloc h ((h ! df)\<lparr>rows := loc (rows (h ! df)) non_outlier_indices\<rparr>))))"

text \<open>The operations as functions of the frame's value: the frame the call returns.\<close>

definition handle_missing_values ::
  "('n::linorder, 'v) arith \<Rightarrow> 'n table \<Rightarrow> string \<Rightarrow> 'n table" where
  "handle_missing_values fp df strategy = returned (handle_missing_values_ref fp [df] 0 strategy)"

definition remove_duplicates :: "'n table \<Rightarrow> 'n table" where
  "remove_duplicates df = returned (remove_duplicates_ref [df] 0)"

definition remove_outliers :: "'n fit_predict \<Rightarrow> 'n table \<Rightarrow> 'n table" where
  "remove_outliers iso_forest df = returned (remove_outliers_ref iso_forest [df] 0)"

text \<open>
  The cleaning request of the \<open>clean\<close> route (lines 123 to 135 of routes.py):
  \<open>clean_options\<close> is the submitted form, a dictionary from field names to values.
\<close>

definition clean ::
  "('n::linorder, 'v) arith \<Rightarrow> 'n fit_predict \<Rightarrow> 'n table \<Rightarrow> (string \<rightharpoonup> string) \<Rightarrow> 'n table" where
  "clean fp iso_forest df clean_options =
     (let df1 = (if ''remove_duplicates'' \<in> dom clean_options then remove_duplicates df else df);
          df2 = (if ''handle_missing'' \<in> dom clean_options
                 then handle_missing_values fp df1
                        (case clean_options ''missing_strategy'' of None \<Rightarrow> ''drop'' | Some s \<Rightarrow> s)
                 else df1);
          df3 = (if ''remove_outliers'' \<in> dom clean_options then remove_outliers iso_forest df2 else df2)
      in df3)"

section \<open>Loading\<close>

text \<open>
  \<open>DataProcessor.__init__\<close>.  The parsers \<open>pd.read_csv\<close> and \<open>pd.read_excel\<close> are
  parameters of \<open>load_data\<close>: applied to the content of the file (a list of bytes, which
  is what an Isabelle character is) they return a frame or raise, a
  \<open>UnicodeDecodeError\<close> or anything else.
\<close>

record DataProcessor =
  max_rows :: nat
  encodings :: "string list"

definition DataProcessor_init :: DataProcessor where
  "DataProcessor_init =
     \<lparr>max_rows = 100000, encodings = [''utf-8'', ''latin-1'', ''iso-8859-1'', ''cp1252'']\<rparr>"

type_synonym bytes = "char list"

datatype 'n read_result = Frame "'n table" | UnicodeDecodeError | OtherError

text \<open>What \<open>load_data\<close> writes to the log; the caller sees the returned value only.\<close>

datatype log_line =
    Loaded_CSV string
  | Failed_any_encoding
  | Loaded_Excel
  | Unsupported_format string
  | Empty_dataframe
  | Too_large nat nat
  | Error_loading

text \<open>\<open>file_path.lower().split('.')[-1]\<close>, on ASCII letters.\<close>

definition str_lower :: "string \<Rightarrow> string" where
  "str_lower s = map (\<lambda>c. if CHR ''A'' \<le> c \<and> c \<le> CHR ''Z'' then char_of (of_char c + (32::nat)) else c) s"

definition last_part :: "string \<Rightarrow> string" where
  "last_part s = rev (takeWhile (\<lambda>c. c \<noteq> CHR ''.'') (rev s))"

text \<open>
  The \<open>for\<close> loop over the encodings: it leaves with the first frame read (\<open>break\<close>),
  goes on after a \<open>UnicodeDecodeError\<close>, is left by any other exception for the outer
  \<open>except\<close>, and reaches its \<open>else\<close> branch when no encoding is left.
\<close>

datatype 'n loop_exit = Break "'n table" string | Else | Raise

fun try_encodings :: "(string \<Rightarrow> 'n read_result) \<Rightarrow> string list \<Rightarrow> 'n loop_exit" where
  "try_encodings rd [] = Else"
| "try_encodings rd (encoding # rest) =
     (case rd encoding of
        Frame df \<Rightarrow> Break df encoding
      | UnicodeDecodeError \<Rightarrow> try_encodings rd rest
      | OtherError \<Rightarrow> Raise)"

text \<open>Lines 39 to 49: the validation of the frame and the row limit.\<close>

definition limit_rows ::
  "DataProcessor \<Rightarrow> 'n table \<Rightarrow> log_line list \<Rightarrow> 'n table option \<times> log_line list" where
  "limit_rows self df lg =
     (if empty_frame df then (None, lg @ [Empty_dataframe])
      else if max_rows self < length (rows df)
        then (Some (head (max_rows self) df), lg @ [Too_large (length (rows df)) (max_rows self)])
      else (Some df, lg))"

text \<open>Lines 16 to 37: the frame read from the file, by extension.\<close>

definition read_frame ::
  "DataProcessor \<Rightarrow> (bytes \<Rightarrow> string \<Rightarrow> 'n read_result) \<Rightarrow> (bytes \<Rightarrow> 'n read_result) \<Rightarrow>
   string \<Rightarrow> bytes \<Rightarrow> 'n table option \<times> log_line list" where
  "read_frame self read_csv read_excel file_path content =
     (let file_extension = last_part (str_lower file_path)
      in if file_extension = ''csv'' then
           (case try_encodings (read_csv content) (encodings self) of
              Break df encoding \<Rightarrow> (Some df, [Loaded_CSV encoding])
            | Else \<Rightarrow> (None, [Failed_any_encoding])
            | Raise \<Rightarrow> (None, [Error_loading]))
         else if file_extension = ''xlsx'' \<or> file_extension = ''xls'' then
           (case read_excel content of
              Frame df \<Rightarrow> (Some df, [Loaded_Excel])
            | _ \<Rightarrow> (None, [Error_loading]))
         else (None, [Unsupported_format file_extension]))"

definition load_data_logged ::
  "DataProcessor \<Rightarrow> (bytes \<Rightarrow> string \<Rightarrow> 'n read_result) \<Rightarrow> (bytes \<Rightarrow> 'n read_result) \<Rightarrow>
   string \<Rightarrow> bytes \<Rightarrow> 'n table option \<times> log_line list" where
  "load_data_logged self read_csv read_excel file_path content =
     (case read_frame self read_csv read_excel file_path content of
        (None, lg) \<Rightarrow> (None, lg)
      | (Some df, lg) \<Rightarrow> limit_rows self df lg)"

definition load_data ::
  "DataProcessor \<Rightarrow> (bytes \<Rightarrow> string \<Rightarrow> 'n read_result) \<Rightarrow> (bytes \<Rightarrow> 'n read_result) \<Rightarrow>
   string \<Rightarrow> bytes \<Rightarrow> 'n table option" where
  "load_data self read_csv read_excel file_path content =
     fst (load_data_logged self read_csv read_excel file_path content)"

section \<open>Sample inputs\<close>

text \<open>
  Tables over the reals, for use with the arithmetic \<open>exact\<close>: every number in them,
  and every quartile, bound, mean and percentage computed from them in the theorems
  below, is a binary fraction that float64 holds exactly.
\<close>

definition sample_duplicates :: "real table" where
  "sample_duplicates =
     \<lparr>columns = [(''city'', Object), (''n'', Int64)],
      rows = [(0, [Str ''Oslo'', Num 1]), (1, [Str ''Rome'', Num 2]),
              (2, [Str ''Oslo'', Num 1]), (3, [Null, Num 2]), (4, [Null, Num 2])]\<rparr>"

definition sample_sparse :: "real table" where
  "sample_sparse =
     \<lparr>columns = [(''a'', Float64), (''b'', Float64)],
      rows = map (\<lambda>i. (int i, [if i \<le> 10 then Num (real i) else Null,
                                 if 9 \<le> i then Num (real i) else Null])) [0..<20]\<rparr>"

definition sample_one_null :: "real table" where
  "sample_one_null =
     \<lparr>columns = [(''x'', Float64)],
      rows = map (\<lambda>i. (int i, [if i < 11 then Num 5 else Null])) [0..<12]\<rparr>"

text \<open>Two stand-ins for the fitted forest: one flags no row, one flags every row.\<close>

definition flags_nothing :: "'n fit_predict" where
  "flags_nothing X = Some (replicate (length X) 1)"

definition flags_all :: "'n fit_predict" where
  "flags_all X = Some (replicate (length X) (- 1))"

definition sample_eleven :: "real table" where
  "sample_eleven =
     \<lparr>columns = [(''x'', Float64)],
      rows = map (\<lambda>i. (int i, [Num (real i + 1)])) [0..<11]\<rparr>"

definition sample_spike :: "real table" where
  "sample_spike =
     \<lparr>columns = [(''id'', Object), (''x'', Float64)],
      rows = map (\<lambda>i. (int i, [Str ''r'', Num (if i = 15 then 100 else real i)])) [0..<16]\<rparr>"

definition sample_six :: "real table" where
  "sample_six =
     \<lparr>columns = [(''x'', Float64)],
      rows = [(0, [Num 1]), (1, [Num 2]), (2, [Num 3]), (3, [Num 4]), (4, [Num 5]), (5, [Num 100])]\<rparr>"

definition sample_gap :: "real table" where
  "sample_gap =
     \<lparr>columns = [(''v'', Float64), (''tag'', Object)],
      rows = [(0, [Num 1, Str ''a'']), (1, [Null, Null]), (2, [Num 3, Str ''a''])]\<rparr>"

definition sample_header_only :: "real table" where
  "sample_header_only = \<lparr>columns = [(''v'', Float64)], rows = []\<rparr>"

definition sample_long :: "nat \<Rightarrow> real table" where
  "sample_long n =
     \<lparr>columns = [(''x'', Int64)], rows = map (\<lambda>i. (int i, [Num (real i)])) [0..<n]\<rparr>"

text \<open>
  Stand-ins for the parsers: \<open>reads df\<close> parses every file to \<open>df\<close>; \<open>ascii_utf8 df\<close>
  does so too but raises a \<open>UnicodeDecodeError\<close> under \<open>utf-8\<close> when the file has a byte
  above 127; \<open>no_excel\<close> always raises.
\<close>

definition reads :: "'n table \<Rightarrow> bytes \<Rightarrow> string \<Rightarrow> 'n read_result" where
  "reads df content encoding = Frame df"

definition ascii_utf8 :: "'n table \<Rightarrow> bytes \<Rightarrow> string \<Rightarrow> 'n read_result" where
  "ascii_utf8 df content encoding =
     (if encoding = ''utf-8'' \<and> list_ex (\<lambda>b. (128::nat) \<le> of_char b) content
      then UnicodeDecodeError else Frame df)"

definition no_excel :: "bytes \<Rightarrow> 'n read_result" where
  "no_excel content = OtherError"

section \<open>The returned frames\<close>

text \<open>What each operation returns, as a function of the value of its argument.\<close>

lemma returned_alloc: "returned (alloc h df) = df"
  by (simp add: returned_def alloc_def)

lemma remove_duplicates_value: "remove_duplicates df = drop_duplicates df"
  by (simp add: remove_duplicates_def remove_duplicates_ref_def returned_alloc)

lemma handle_missing_values_value:
  "handle_missing_values fp df strategy =
     (if strategy = ''drop'' then dropna df
      else if strategy = ''fill_mean'' then fill_numeric (mean fp) df
      else if strategy = ''fill_median'' then fill_numeric (median fp) df
      else if strategy = ''fill_mode'' then fill_mode df
      else df)"
  by (simp add: handle_missing_values_def handle_missing_values_ref_def returned_alloc)
     (simp add: returned_def)

text \<open>
  The rows \<open>keep_first\<close> keeps are among the given ones, have pairwise different cells
  and none whose cells were seen before; on such rows it changes nothing.
\<close>

lemma keep_first_unseen: "r \<in> set (keep_first seen rs) \<Longrightarrow> snd r \<notin> set seen"
proof (induction rs arbitrary: seen)
  case Nil
  then show ?case by simp
next
  case (Cons x rs)
  show ?case
  proof (cases "snd x \<in> set seen")
    case True
    with Cons show ?thesis by simp
  next
    case False
    with Cons.prems have "r = x \<or> r \<in> set (keep_first (snd x # seen) rs)" by simp
    then show ?thesis
    proof
      assume "r = x"
      with False show ?thesis by simp
    next
      assume "r \<in> set (keep_first (snd x # seen) rs)"
      from Cons.IH [OF this] show ?thesis by simp
    qed
  qed
qed

lemma keep_first_fresh: "snd ` set (keep_first seen rs) \<inter> set seen = {}"
  using keep_first_unseen by fastforce

lemma keep_first_subset: "set (keep_first seen rs) \<subseteq> set rs"
  by (induction rs arbitrary: seen) auto

lemma keep_first_distinct: "distinct (map snd (keep_first seen rs))"
proof (induction rs arbitrary: seen)
  case Nil
  then show ?case by simp
next
  case (Cons r rs)
  have "snd r \<notin> snd ` set (keep_first (snd r # seen) rs)"
    using keep_first_fresh [of "snd r # seen" rs] by auto
  with Cons show ?case by simp
qed

lemma keep_first_id:
  "distinct (map snd rs) \<Longrightarrow> snd ` set rs \<inter> set seen = {} \<Longrightarrow> keep_first seen rs = rs"
  by (induction rs arbitrary: seen) auto

lemma keep_first_idem: "keep_first seen (keep_first seen rs) = keep_first seen rs"
  by (rule keep_first_id [OF keep_first_distinct keep_first_fresh])

section \<open>Deduplication\<close>

text \<open>
  C7.  Deduplication is idempotent: removing the duplicates of a table from which the
  duplicates were already removed gives that table back,
  \<open>remove_duplicates (remove_duplicates T) = remove_duplicates T\<close>.
\<close>

theorem remove_duplicates_idempotent:
  "remove_duplicates (remove_duplicates df) = remove_duplicates df"
  by (simp add: remove_duplicates_value drop_duplicates_def keep_first_idem)

theorem remove_duplicates_idempotent_witness:
  "remove_duplicates (remove_duplicates sample_duplicates) =
     \<lparr>columns = [(''city'', Object), (''n'', Int64)],
      rows = [(0, [Str ''Oslo'', Num 1]), (1, [Str ''Rome'', Num 2]), (3, [Null, Num 2])]\<rparr>"
  using remove_duplicates_idempotent [of sample_duplicates]
  by (simp add: remove_duplicates_value drop_duplicates_def sample_duplicates_def)

section \<open>Outlier removal\<close>

text \<open>The returned frame, branch by branch.\<close>

lemma remove_outliers_value:
  "remove_outliers iso_forest df =
     (if valid_columns df = [] then df
      else if length (dropna_rows (select_rows (valid_columns df) (rows df))) < 10 then df
      else case as_matrix (dropna_rows (select_rows (valid_columns df) (rows df))) of
             None \<Rightarrow> df
           | Some X \<Rightarrow>
              (case iso_forest X of
                 None \<Rightarrow> df
               | Some outlier_labels \<Rightarrow>
                   if length outlier_labels \<noteq> length (dropna_rows (select_rows (valid_columns df) (rows df)))
                   then df
                   else df\<lparr>rows := loc (rows df)
                          (map (\<lambda>p. fst (fst p))
                             (filter (\<lambda>p. snd p = 1)
                                (zip (dropna_rows (select_rows (valid_columns df) (rows df))) outlier_labels)))\<rparr>))"
  by (simp add: remove_outliers_def remove_outliers_ref_def returned_def alloc_def Let_def
        valid_columns_def split: option.splits)

text \<open>
  When the forest is fitted and the index labels are unique, every row of the result is
  a row of the input that is complete in the evaluated columns, whatever labels the
  forest gave.
\<close>

lemma loc_member: "r \<in> set (loc rs labels) \<longleftrightarrow> r \<in> set rs \<and> fst r \<in> set labels"
  by (auto simp add: loc_def)

lemma inlier_labels_subset:
  "l \<in> set (map (\<lambda>p. fst (fst p)) (filter (\<lambda>p. snd p = (1::int)) (zip rs ls))) \<Longrightarrow> l \<in> fst ` set rs"
  by (force dest: set_zip_leftD)

lemma complete_rows_labels:
  assumes "l \<in> fst ` set (dropna_rows (select_rows js rs))"
  shows "\<exists>r \<in> set rs. fst r = l \<and> Null \<notin> set (map (\<lambda>j. snd r ! j) js)"
  using assms by (fastforce simp add: dropna_rows_def select_rows_def)

lemma same_label_same_row:
  "distinct (map fst rs) \<Longrightarrow> r \<in> set rs \<Longrightarrow> r' \<in> set rs \<Longrightarrow> fst r = fst r' \<Longrightarrow> r = r'"
  by (metis distinct_map inj_onD)

lemma remove_outliers_fitted:
  assumes "valid_columns df \<noteq> []"
    and "10 \<le> length (dropna_rows (select_rows (valid_columns df) (rows df)))"
    and "as_matrix (dropna_rows (select_rows (valid_columns df) (rows df))) = Some X"
    and "iso_forest X = Some outlier_labels"
    and "length outlier_labels = length (dropna_rows (select_rows (valid_columns df) (rows df)))"
  shows "remove_outliers iso_forest df =
     df\<lparr>rows := loc (rows df)
        (map (\<lambda>p. fst (fst p))
           (filter (\<lambda>p. snd p = 1)
              (zip (dropna_rows (select_rows (valid_columns df) (rows df))) outlier_labels)))\<rparr>"
  using assms by (simp add: remove_outliers_value)

lemma remove_outliers_keeps_complete_rows_only:
  assumes "valid_columns df \<noteq> []"
    and "10 \<le> length (dropna_rows (select_rows (valid_columns df) (rows df)))"
    and "as_matrix (dropna_rows (select_rows (valid_columns df) (rows df))) = Some X"
    and "iso_forest X = Some outlier_labels"
    and "length outlier_labels = length (dropna_rows (select_rows (valid_columns df) (rows df)))"
    and uniq: "distinct (map fst (rows df))"
    and r: "r \<in> set (rows (remove_outliers iso_forest df))"
  shows "r \<in> set (rows df) \<and> Null \<notin> set (map (\<lambda>j. snd r ! j) (valid_columns df))"
proof -
  let ?data = "dropna_rows (select_rows (valid_columns df) (rows df))"
  let ?keep = "map (\<lambda>p. fst (fst p)) (filter (\<lambda>p. snd p = 1) (zip ?data outlier_labels))"
  have res: "remove_outliers iso_forest df = df\<lparr>rows := loc (rows df) ?keep\<rparr>"
    using assms(1-5) by (rule remove_outliers_fitted)
  from r have in_rows: "r \<in> set (rows df)" and "fst r \<in> set ?keep"
    by (simp_all add: res loc_member)
  then have "fst r \<in> fst ` set ?data" by (intro inlier_labels_subset)
  from complete_rows_labels [OF this] obtain r' where
    r': "r' \<in> set (rows df)" "fst r' = fst r" "Null \<notin> set (map (\<lambda>j. snd r' ! j) (valid_columns df))"
    by blast
  from same_label_same_row [OF uniq in_rows r'(1)] r'(2) have "r = r'" by simp
  with in_rows r'(3) show ?thesis by simp
qed

text \<open>
  C1.  The claim: when some numeric column has more than 10 non-null values and at
  least 10 rows are complete in those columns, \<open>remove_outliers\<close> keeps exactly the
  rows the forest does not flag, and in particular keeps every row that has a missing
  value in one of those columns.  The code at a table of twelve rows, eleven with
  \<open>x = 5\<close> and the last with \<open>x\<close> missing, and a forest that flags no row: the
  eleven complete rows are returned, the row with the missing value is gone.
\<close>

theorem remove_outliers_drops_unscored_row:
  "valid_columns sample_one_null = [0] \<and>
   length (dropna_rows (select_rows (valid_columns sample_one_null) (rows sample_one_null))) = 11 \<and>
   (11, [Null]) \<in> set (rows sample_one_null) \<and>
   remove_outliers flags_nothing sample_one_null =
     \<lparr>columns = [(''x'', Float64)], rows = map (\<lambda>i. (int i, [Num 5])) [0..<11]\<rparr>"
  by (simp add: remove_outliers_value valid_columns_def numeric_columns_def sample_one_null_def
        is_numeric_def column_def notna_sum_def upt_rec dropna_rows_def select_rows_def
        as_matrix_def flags_nothing_def loc_def)

text \<open>
  C8.  When no numeric column has more than 10 non-null values, or fewer than 10 rows
  are complete in the columns that have, \<open>remove_outliers\<close> returns the table as it
  is: no row is removed, whatever the forest would answer.
\<close>

theorem remove_outliers_skips:
  assumes "valid_columns df = [] \<or>
           length (dropna_rows (select_rows (valid_columns df) (rows df))) < 10"
  shows "remove_outliers iso_forest df = df"
  using assms by (auto simp add: remove_outliers_value)

theorem remove_outliers_skips_witness:
  "valid_columns sample_sparse = [0, 1] \<and>
   length (dropna_rows (select_rows (valid_columns sample_sparse) (rows sample_sparse))) = 2 \<and>
   remove_outliers flags_all sample_sparse = sample_sparse"
proof -
  have v: "valid_columns sample_sparse = [0, 1]"
    by (simp add: valid_columns_def numeric_columns_def sample_sparse_def is_numeric_def
          column_def notna_sum_def upt_rec)
  have n: "length (dropna_rows (select_rows (valid_columns sample_sparse) (rows sample_sparse))) = 2"
    by (simp add: v) (simp add: sample_sparse_def dropna_rows_def select_rows_def upt_rec)
  from n have "valid_columns sample_sparse = [] \<or>
      length (dropna_rows (select_rows (valid_columns sample_sparse) (rows sample_sparse))) < 10"
    by simp
  from remove_outliers_skips [OF this, of flags_all] v n show ?thesis by simp
qed

section \<open>Column structure\<close>

text \<open>No operation changes the number of cells of a row.\<close>

lemma fillna_column_width:
  "list_all (\<lambda>r. length (snd r) = n) rs \<Longrightarrow> list_all (\<lambda>r. length (snd r) = n) (fillna_column j v rs)"
  by (induction rs) (simp_all add: fillna_column_def)

lemma fold_fill_width:
  assumes "\<And>j rs. list_all (\<lambda>r. length (snd r) = n) rs \<Longrightarrow> list_all (\<lambda>r. length (snd r) = n) (step j rs)"
    and "list_all (\<lambda>r. length (snd r) = n) rs"
  shows "list_all (\<lambda>r. length (snd r) = n) (fold step js rs)"
  using assms(2) by (induction js arbitrary: rs) (simp_all add: assms(1))

lemma fill_numeric_rectangular: "rectangular df \<Longrightarrow> rectangular (fill_numeric stat df)"
  unfolding rectangular_def fill_numeric_def
  by (simp, rule fold_fill_width) (auto simp add: fillna_column_width split: option.splits)

lemma fill_mode_rectangular: "rectangular df \<Longrightarrow> rectangular (fill_mode df)"
  unfolding rectangular_def fill_mode_def
  by (simp, rule fold_fill_width) (auto simp add: fillna_column_width)

lemma subset_rectangular:
  "rectangular df \<Longrightarrow> set rs \<subseteq> set (rows df) \<Longrightarrow> rectangular (df\<lparr>rows := rs\<rparr>)"
  by (auto simp add: rectangular_def list_all_iff)

lemma loc_subset: "set (loc rs labels) \<subseteq> set rs"
  by (auto simp add: loc_def)

lemma remove_duplicates_rectangular: "rectangular df \<Longrightarrow> rectangular (remove_duplicates df)"
  by (simp add: remove_duplicates_value drop_duplicates_def subset_rectangular keep_first_subset)

lemma handle_missing_values_rectangular:
  "rectangular df \<Longrightarrow> rectangular (handle_missing_values fp df strategy)"
  by (simp add: handle_missing_values_value dropna_def dropna_rows_def subset_rectangular
        fill_numeric_rectangular fill_mode_rectangular)

lemma remove_outliers_rectangular: "rectangular df \<Longrightarrow> rectangular (remove_outliers iso_forest df)"
  by (simp add: remove_outliers_value subset_rectangular loc_subset split: option.splits)

text \<open>
  C9.  Every cleaning operation returns a table with the columns of its input, in the
  same order: \<open>remove_duplicates\<close>, \<open>handle_missing_values\<close> with any strategy string
  (\<open>drop\<close>, the three fills, an unknown one) and \<open>remove_outliers\<close>.  The rows stay
  aligned with them: when every row of the input has one cell per column, so has every
  row of the result.
\<close>

theorem cleaning_preserves_columns:
  "columns (remove_duplicates df) = columns df \<and>
   columns (handle_missing_values fp df strategy) = columns df \<and>
   columns (remove_outliers iso_forest df) = columns df \<and>
   (rectangular df \<longrightarrow>
      rectangular (remove_duplicates df) \<and>
      rectangular (handle_missing_values fp df strategy) \<and>
      rectangular (remove_outliers iso_forest df))"
proof (intro conjI impI)
  show "columns (remove_duplicates df) = columns df"
    by (simp add: remove_duplicates_value drop_duplicates_def)
  show "columns (handle_missing_values fp df strategy) = columns df"
    by (simp add: handle_missing_values_value dropna_def fill_numeric_def fill_mode_def)
  show "columns (remove_outliers iso_forest df) = columns df"
    by (simp add: remove_outliers_value split: option.splits)
next
  assume r: "rectangular df"
  from r show "rectangular (remove_duplicates df)"
    by (rule remove_duplicates_rectangular)
  from r show "rectangular (handle_missing_values fp df strategy)"
    by (rule handle_missing_values_rectangular)
  from r show "rectangular (remove_outliers iso_forest df)"
    by (rule remove_outliers_rectangular)
qed

theorem cleaning_preserves_columns_witness:
  "rectangular sample_gap \<and>
   columns (remove_duplicates sample_gap) = [(''v'', Float64), (''tag'', Object)] \<and>
   columns (handle_missing_values exact sample_gap ''fill_mode'') = [(''v'', Float64), (''tag'', Object)] \<and>
   columns (remove_outliers flags_all sample_gap) = [(''v'', Float64), (''tag'', Object)] \<and>
   rectangular (remove_duplicates sample_gap) \<and>
   rectangular (handle_missing_values exact sample_gap ''fill_mode'') \<and>
   rectangular (remove_outliers flags_all sample_gap)"
proof -
  have r: "rectangular sample_gap"
    by (simp add: rectangular_def sample_gap_def)
  have c: "columns sample_gap = [(''v'', Float64), (''tag'', Object)]"
    by (simp add: sample_gap_def)
  from cleaning_preserves_columns
         [where df = sample_gap and fp = exact and strategy = "''fill_mode''" and iso_forest = flags_all] r c
  show ?thesis by simp
qed

section \<open>The cleaning request\<close>

text \<open>
  C6.  A request that selects none of the three operations (the form has no field
  \<open>remove_duplicates\<close>, none \<open>handle_missing\<close> and none \<open>remove_outliers\<close>) gives the
  table back as it was.
\<close>

theorem clean_no_options:
  assumes "''remove_duplicates'' \<notin> dom clean_options"
    and "''handle_missing'' \<notin> dom clean_options"
    and "''remove_outliers'' \<notin> dom clean_options"
  shows "clean fp iso_forest df clean_options = df"
  using assms by (simp add: clean_def)

theorem clean_no_options_witness:
  "clean exact flags_all sample_duplicates [''missing_strategy'' \<mapsto> ''drop''] = sample_duplicates \<and>
   clean exact flags_all sample_duplicates Map.empty = sample_duplicates"
  using
    clean_no_options [where clean_options = "[''missing_strategy'' \<mapsto> ''drop'']" and fp = exact
        and iso_forest = flags_all and df = sample_duplicates]
    clean_no_options [where clean_options = Map.empty and fp = exact
        and iso_forest = flags_all and df = sample_duplicates]
  by simp

section \<open>The IQR method and the quality report\<close>

text \<open>
  Looking a column up by name in the outlier section, when the names are distinct: the
  entry of the loop body for that column, if the column is numeric.
\<close>

lemma name_position:
  assumes "distinct (map fst cols)" and "i < length cols" and "j < length cols"
    and "fst (cols ! i) = fst (cols ! j)"
  shows "i = j"
  using assms by (metis length_map nth_eq_iff_index_eq nth_map)

lemma map_of_map_filter_names:
  assumes d: "distinct (map fst cols)" and j: "j < length cols"
    and js: "\<And>i. i \<in> set js \<Longrightarrow> i < length cols"
    and f: "\<And>i e. f i = Some e \<Longrightarrow> fst e = fst (cols ! i)"
  shows "map_of (List.map_filter f js) (fst (cols ! j)) =
           (if j \<in> set js then map_option snd (f j) else None)"
  using js
proof (induction js)
  case Nil
  then show ?case by simp
next
  case (Cons i js)
  then have i: "i < length cols" by simp
  from Cons have IH: "map_of (List.map_filter f js) (fst (cols ! j)) =
           (if j \<in> set js then map_option snd (f j) else None)" by simp
  show ?case
  proof (cases "f i")
    case None
    with IH show ?thesis by auto
  next
    case (Some e)
    show ?thesis
    proof (cases "i = j")
      case True
      with Some f [OF Some] show ?thesis
        by (cases e) simp
    next
      case False
      with name_position [OF d i j] f [OF Some] have "fst e \<noteq> fst (cols ! j)" by auto
      with Some IH False show ?thesis
        by (cases e) auto
    qed
  qed
qed

lemma outlier_entry_of_name: "outlier_entry_of fp df i = Some e \<Longrightarrow> fst e = fst (columns df ! i)"
  by (auto simp add: outlier_entry_of_def Let_def split: if_splits)

lemma numeric_columns_member:
  "j \<in> set (numeric_columns df) \<longleftrightarrow> j < length (columns df) \<and> is_numeric (snd (columns df ! j))"
  by (auto simp add: numeric_columns_def)

lemma outliers_lookup:
  assumes "distinct (map fst (columns df))" and "j < length (columns df)"
  shows "map_of (outliers (get_data_quality_info fp df)) (fst (columns df ! j)) =
           (if is_numeric (snd (columns df ! j)) then map_option snd (outlier_entry_of fp df j) else None)"
proof -
  have "map_of (List.map_filter (outlier_entry_of fp df) (numeric_columns df)) (fst (columns df ! j)) =
          (if j \<in> set (numeric_columns df) then map_option snd (outlier_entry_of fp df j) else None)"
    using assms
    by (intro map_of_map_filter_names) (simp_all add: numeric_columns_member outlier_entry_of_name)
  with assms(2) show ?thesis
    by (simp add: get_data_quality_info_def numeric_columns_member)
qed

lemma is_outlier_fun: "is_outlier fp b = (\<lambda>x. below fp x (lower b) \<or> above fp x (upper b))"
  by (rule ext) (simp add: is_outlier_def)

text \<open>A column with 10 or fewer non-null values has no entry, whatever the arithmetic.\<close>

lemma few_values_no_entry:
  "notna_sum (column df j) \<le> 10 \<Longrightarrow> outlier_entry_of fp df j = None"
  by (simp add: outlier_entry_of_def)

text \<open>
  C5, as claimed: for a numeric column holding exactly the values 1, 2, 3, 4, 5, 100 the
  IQR computation yields its quartiles and bounds and flags the value 100.  It fails in
  the program: the column has 6 non-null values, the computation runs only for a column
  with more than 10, so nothing is computed for it and nothing is flagged; the report's
  outlier section is empty.
\<close>

theorem six_values_counterexample:
  "numbers (column sample_six 0) = [1, 2, 3, 4, 5, 100] \<and>
   notna_sum (column sample_six 0) = 6 \<and>
   outlier_entry_of exact sample_six 0 = None \<and>
   outliers (get_data_quality_info exact sample_six) = []"
  by (simp add: sample_six_def column_def notna_sum_def outlier_entry_of_def
        get_data_quality_info_def numeric_columns_def is_numeric_def)

text \<open>
  C5, amended.  For a numeric column holding exactly the values 1, 2, 3, 4, 5, 100 the
  quality report computes no bounds and flags no value, whatever the arithmetic: six
  non-null values do not pass the guard of line 104.  The formulas of lines 107 to 113
  themselves, applied to these six values with linear-interpolated quantiles, give
  \<open>Q1 = 2.25\<close>, \<open>Q3 = 4.75\<close>, \<open>IQR = 2.5\<close> and the bounds \<open>-1.5\<close> and \<open>8.5\<close>, with
  100 and no other value strictly outside (each of these numbers is exact in float64).
\<close>

theorem six_values_not_evaluated:
  "outliers (get_data_quality_info fp sample_six) = [] \<and>
   iqr_method exact [1, 2, 3, 4, 5, 100] =
     \<lparr>Q1 = 2.25, Q3 = 4.75, IQR = 2.5, lower = - 1.5, upper = 8.5\<rparr> \<and>
   map (is_outlier exact (iqr_method exact [1, 2, 3, 4, 5, 100])) [1, 2, 3, 4, 5, 100] =
     [False, False, False, False, False, True]"
proof (intro conjI)
  have "notna_sum (column sample_six 0) \<le> 10"
    by (simp add: sample_six_def column_def notna_sum_def)
  then have "outlier_entry_of fp sample_six 0 = None"
    by (rule few_values_no_entry)
  moreover have "numeric_columns sample_six = [0]"
    by (simp add: numeric_columns_def sample_six_def is_numeric_def)
  ultimately show "outliers (get_data_quality_info fp sample_six) = []"
    by (simp add: get_data_quality_info_def)
  show fit: "iqr_method exact [1, 2, 3, 4, 5, 100] =
     \<lparr>Q1 = 2.25, Q3 = 4.75, IQR = 2.5, lower = - 1.5, upper = 8.5\<rparr>"
    by (simp add: iqr_method_def exact_def linear_quantile_def Let_def)
  show "map (is_outlier exact (iqr_method exact [1, 2, 3, 4, 5, 100])) [1, 2, 3, 4, 5, 100] =
     [False, False, False, False, False, True]"
    by (simp add: fit is_outlier_def) (simp add: exact_def)
qed

text \<open>
  C3, as claimed: the outlier section has an entry for exactly the numeric columns with
  more than 10 non-null values.  It fails on a float column holding 1, 2, ..., 11: the
  column has 11 non-null values, its bounds are \<open>-4\<close> and 16, no value is outside them,
  and the report has no entry for it.
\<close>

theorem outlier_section_counterexample:
  "is_numeric (snd (columns sample_eleven ! 0)) \<and>
   notna_sum (column sample_eleven 0) = 11 \<and>
   iqr_method exact (numbers (column sample_eleven 0)) =
     \<lparr>Q1 = 3.5, Q3 = 8.5, IQR = 5, lower = - 4, upper = 16\<rparr> \<and>
   map_of (outliers (get_data_quality_info exact sample_eleven)) (fst (columns sample_eleven ! 0)) = None"
  by (simp add: sample_eleven_def get_data_quality_info_def numeric_columns_def is_numeric_def
        outlier_entry_of_def column_def notna_sum_def upt_rec iqr_method_def is_outlier_def
        exact_def linear_quantile_def Let_def)

text \<open>
  C3, amended.  In a table whose column names are distinct, the outlier section has an
  entry for a column exactly when the column is numeric, has more than 10 non-null
  values and at least one of them is an outlier.  The entry records the bounds
  \<open>Q1 - 1.5 * IQR\<close> and \<open>Q3 + 1.5 * IQR\<close> (quartiles of the non-null values, \<open>IQR\<close>
  their difference), the number of values strictly below the lower or strictly above
  the upper bound, and that number as a percentage of the table's rows, rounded to two
  decimals; all of it in the program's own arithmetic, whatever that is.
\<close>

theorem outlier_section_entry:
  assumes "distinct (map fst (columns df))" and "j < length (columns df)"
  shows "case map_of (outliers (get_data_quality_info fp df)) (fst (columns df ! j)) of
           None \<Rightarrow>
             \<not> (is_numeric (snd (columns df ! j)) \<and> 10 < notna_sum (column df j) \<and>
                filter (is_outlier fp (iqr_method fp (numbers (column df j))))
                  (numbers (column df j)) \<noteq> [])
         | Some e \<Rightarrow>
             is_numeric (snd (columns df ! j)) \<and> 10 < notna_sum (column df j) \<and>
             lower_bound e =
               fsub fp (quantile fp (numbers (column df j)) 0.25)
                 (fmul fp 1.5 (fsub fp (quantile fp (numbers (column df j)) 0.75)
                                       (quantile fp (numbers (column df j)) 0.25))) \<and>
             upper_bound e =
               fadd fp (quantile fp (numbers (column df j)) 0.75)
                 (fmul fp 1.5 (fsub fp (quantile fp (numbers (column df j)) 0.75)
                                       (quantile fp (numbers (column df j)) 0.25))) \<and>
             count e =
               length (filter (\<lambda>x. below fp x (lower_bound e) \<or> above fp x (upper_bound e))
                         (numbers (column df j))) \<and>
             0 < count e \<and>
             percentage e = round2 fp (fmul fp 100 (fdiv fp (count e) (length (rows df))))"
proof (cases "is_numeric (snd (columns df ! j)) \<and> 10 < notna_sum (column df j)")
  case False
  with assms show ?thesis
    by (auto simp add: outliers_lookup outlier_entry_of_def)
next
  case True
  let ?b = "iqr_method fp (numbers (column df j))"
  have b: "lower ?b =
             fsub fp (quantile fp (numbers (column df j)) 0.25)
               (fmul fp 1.5 (fsub fp (quantile fp (numbers (column df j)) 0.75)
                                     (quantile fp (numbers (column df j)) 0.25)))"
          "upper ?b =
             fadd fp (quantile fp (numbers (column df j)) 0.75)
               (fmul fp 1.5 (fsub fp (quantile fp (numbers (column df j)) 0.75)
                                     (quantile fp (numbers (column df j)) 0.25)))"
    by (simp_all add: iqr_method_def Let_def)
  show ?thesis
  proof (cases "filter (is_outlier fp ?b) (numbers (column df j)) = []")
    case True
    with \<open>is_numeric _ \<and> _\<close> assms show ?thesis
      by (simp add: outliers_lookup outlier_entry_of_def Let_def)
  next
    case False
    have e: "map_of (outliers (get_data_quality_info fp df)) (fst (columns df ! j)) =
        Some \<lparr>count = length (filter (is_outlier fp ?b) (numbers (column df j))),
              percentage = round2 fp (fmul fp 100
                (fdiv fp (length (filter (is_outlier fp ?b) (numbers (column df j)))) (length (rows df)))),
              lower_bound = lower ?b, upper_bound = upper ?b\<rparr>"
      using False True assms by (simp add: outliers_lookup outlier_entry_of_def Let_def)
    have f: "filter (is_outlier fp ?b) (numbers (column df j)) =
             filter (\<lambda>x. below fp x (lower ?b) \<or> above fp x (upper ?b)) (numbers (column df j))"
      by (simp add: is_outlier_fun)
    from False have pos: "0 < length (filter (is_outlier fp ?b) (numbers (column df j)))"
      by simp
    show ?thesis
      unfolding e using True pos b f by simp
  qed
qed

theorem outlier_section_entry_witness:
  "distinct (map fst (columns sample_spike)) \<and> 1 < length (columns sample_spike) \<and>
   map_of (outliers (get_data_quality_info exact sample_spike)) (fst (columns sample_spike ! 1)) =
     Some \<lparr>count = 1, percentage = 6.25, lower_bound = - 7.5, upper_bound = 22.5\<rparr>"
  using outlier_section_entry [where df = sample_spike and j = 1 and fp = exact]
  by (simp add: sample_spike_def get_data_quality_info_def numeric_columns_def is_numeric_def
        outlier_entry_of_def column_def notna_sum_def upt_rec iqr_method_def is_outlier_def
        exact_def linear_quantile_def half_even2_def rint_def Let_def)

section \<open>Properties of loading\<close>

text \<open>
  \<open>latin-1\<close> is the second encoding tried: when it raises no \<open>UnicodeDecodeError\<close>
  the loop ends there at the latest, by \<open>break\<close> or by another exception.
\<close>

lemma latin1_stops_loop:
  assumes "rd ''latin-1'' \<noteq> UnicodeDecodeError"
  shows "try_encodings rd (encodings DataProcessor_init) \<noteq> Else"
  using assms by (simp add: DataProcessor_init_def split: read_result.splits)

lemma load_failure_reasons:
  assumes "try_encodings (read_csv content) (encodings self) \<noteq> Else"
    and "load_data self read_csv read_excel file_path content = None"
  shows "snd (load_data_logged self read_csv read_excel file_path content) = [Error_loading] \<or>
         (\<exists>enc. snd (load_data_logged self read_csv read_excel file_path content) = [Loaded_CSV enc, Empty_dataframe]) \<or>
         snd (load_data_logged self read_csv read_excel file_path content) = [Loaded_Excel, Empty_dataframe] \<or>
         (\<exists>ext. snd (load_data_logged self read_csv read_excel file_path content) = [Unsupported_format ext])"
  using assms
  by (auto simp add: load_data_def load_data_logged_def read_frame_def limit_rows_def Let_def
        split: loop_exit.splits read_result.splits if_splits)

text \<open>
  C10.  Provided \<open>read_csv\<close> raises no \<open>UnicodeDecodeError\<close> under \<open>latin-1\<close> (every
  byte is a Latin-1 character), the loop over the encodings never reaches its \<open>else\<close>
  branch, whatever the file holds: the line "Failed to load CSV with any encoding" is
  never logged, and when \<open>load_data\<close> returns \<open>None\<close> it does so after another
  exception, on an empty frame or on an unsupported extension.
\<close>

theorem all_encodings_failed_unreachable:
  assumes "read_csv content ''latin-1'' \<noteq> UnicodeDecodeError"
  shows "try_encodings (read_csv content) (encodings DataProcessor_init) \<noteq> Else \<and>
         Failed_any_encoding \<notin>
           set (snd (load_data_logged DataProcessor_init read_csv read_excel file_path content)) \<and>
         (load_data DataProcessor_init read_csv read_excel file_path content = None \<longrightarrow>
            snd (load_data_logged DataProcessor_init read_csv read_excel file_path content) = [Error_loading] \<or>
            (\<exists>enc. snd (load_data_logged DataProcessor_init read_csv read_excel file_path content) =
                     [Loaded_CSV enc, Empty_dataframe]) \<or>
            snd (load_data_logged DataProcessor_init read_csv read_excel file_path content) =
              [Loaded_Excel, Empty_dataframe] \<or>
            (\<exists>ext. snd (load_data_logged DataProcessor_init read_csv read_excel file_path content) =
                     [Unsupported_format ext]))"
proof (intro conjI impI)
  show loop: "try_encodings (read_csv content) (encodings DataProcessor_init) \<noteq> Else"
    using assms by (rule latin1_stops_loop)
  have "Failed_any_encoding \<notin>
          set (snd (read_frame DataProcessor_init read_csv read_excel file_path content))"
    using loop by (simp add: read_frame_def Let_def split: loop_exit.splits read_result.splits)
  then show "Failed_any_encoding \<notin>
           set (snd (load_data_logged DataProcessor_init read_csv read_excel file_path content))"
    by (cases "read_frame DataProcessor_init read_csv read_excel file_path content")
       (auto simp add: load_data_logged_def limit_rows_def split: option.splits)
  assume "load_data DataProcessor_init read_csv read_excel file_path content = None"
  with loop show
    "snd (load_data_logged DataProcessor_init read_csv read_excel file_path content) = [Error_loading] \<or>
     (\<exists>enc. snd (load_data_logged DataProcessor_init read_csv read_excel file_path content) =
              [Loaded_CSV enc, Empty_dataframe]) \<or>
     snd (load_data_logged DataProcessor_init read_csv read_excel file_path content) =
       [Loaded_Excel, Empty_dataframe] \<or>
     (\<exists>ext. snd (load_data_logged DataProcessor_init read_csv read_excel file_path content) =
              [Unsupported_format ext])"
    by (rule load_failure_reasons)
qed

theorem all_encodings_failed_unreachable_witness:
  "ascii_utf8 sample_duplicates [CHR 0xFF] ''utf-8'' = UnicodeDecodeError \<and>
   ascii_utf8 sample_duplicates [CHR 0xFF] ''latin-1'' \<noteq> UnicodeDecodeError \<and>
   load_data_logged DataProcessor_init (ascii_utf8 sample_duplicates) no_excel ''data.csv'' [CHR 0xFF] =
     (Some sample_duplicates, [Loaded_CSV ''latin-1'']) \<and>
   load_data DataProcessor_init (ascii_utf8 sample_header_only) no_excel ''data.csv'' [CHR 0xFF] = None \<and>
   snd (load_data_logged DataProcessor_init (ascii_utf8 sample_header_only) no_excel ''data.csv'' [CHR 0xFF]) =
     [Loaded_CSV ''latin-1'', Empty_dataframe]"
  using all_encodings_failed_unreachable
          [of "ascii_utf8 sample_duplicates" "[CHR 0xFF]" no_excel "''data.csv''"]
        all_encodings_failed_unreachable
          [of "ascii_utf8 sample_header_only" "[CHR 0xFF]" no_excel "''data.csv''"]
  by (simp add: load_data_def load_data_logged_def read_frame_def last_part_def str_lower_def
        less_eq_char_def DataProcessor_init_def limit_rows_def empty_frame_def
        ascii_utf8_def sample_duplicates_def sample_header_only_def)

text \<open>
  C4, as claimed: a load that is cut to 100,000 rows returns a result flagged as
  truncated.  It fails: a file of 100,001 rows and a file of its first 100,000 rows
  give the same returned value, the table of 100,000 rows, so nothing in what the
  caller receives tells the truncated load from the complete one.
\<close>

theorem truncation_not_flagged:
  "length (rows (sample_long 100001)) = 100001 \<and>
   load_data DataProcessor_init (reads (sample_long 100001)) no_excel ''big.csv'' ''x'' =
     Some (sample_long 100000) \<and>
   load_data DataProcessor_init (reads (sample_long 100000)) no_excel ''big.csv'' ''x'' =
     Some (sample_long 100000)"
  by (simp add: load_data_def load_data_logged_def read_frame_def last_part_def str_lower_def
        less_eq_char_def DataProcessor_init_def limit_rows_def empty_frame_def
        reads_def sample_long_def head_def take_map)

text \<open>
  C4, amended.  When the file parses to a table with at least one column and more than
  100,000 rows, \<open>load_data\<close> succeeds and returns that table cut to its first 100,000
  rows.  The truncation is written to the log only: the returned value is the bare
  table, the same value as loading a file that parses to the cut table.
\<close>

theorem load_data_truncates:
  assumes "fst (read_frame DataProcessor_init read_csv read_excel file_path content) = Some df"
    and "100000 < length (rows df)"
    and "columns df \<noteq> []"
  shows "load_data DataProcessor_init read_csv read_excel file_path content =
           Some (df\<lparr>rows := take 100000 (rows df)\<rparr>) \<and>
         Too_large (length (rows df)) 100000 \<in>
           set (snd (load_data_logged DataProcessor_init read_csv read_excel file_path content)) \<and>
         load_data DataProcessor_init (\<lambda>c e. Frame (df\<lparr>rows := take 100000 (rows df)\<rparr>))
             read_excel ''t.csv'' content =
           load_data DataProcessor_init read_csv read_excel file_path content"
proof -
  obtain lg where rf: "read_frame DataProcessor_init read_csv read_excel file_path content = (Some df, lg)"
    using assms(1) by (cases "read_frame DataProcessor_init read_csv read_excel file_path content") simp
  from assms(2) have ne: "rows df \<noteq> []" by auto
  have a: "load_data_logged DataProcessor_init read_csv read_excel file_path content =
      (Some (df\<lparr>rows := take 100000 (rows df)\<rparr>), lg @ [Too_large (length (rows df)) 100000])"
    unfolding load_data_logged_def rf using assms(2,3) ne
    by (simp add: limit_rows_def empty_frame_def head_def DataProcessor_init_def)
  have b: "load_data DataProcessor_init (\<lambda>c e. Frame (df\<lparr>rows := take 100000 (rows df)\<rparr>))
             read_excel ''t.csv'' content = Some (df\<lparr>rows := take 100000 (rows df)\<rparr>)"
    using assms(2,3) ne
    by (simp add: load_data_def load_data_logged_def read_frame_def last_part_def str_lower_def
          less_eq_char_def DataProcessor_init_def limit_rows_def empty_frame_def)
  from a b show ?thesis by (simp add: load_data_def)
qed

theorem load_data_truncates_witness:
  "fst (read_frame DataProcessor_init (reads (sample_long 100001)) no_excel ''big.csv'' ''x'') =
     Some (sample_long 100001) \<and>
   100000 < length (rows (sample_long 100001)) \<and>
   columns (sample_long 100001) \<noteq> [] \<and>
   load_data DataProcessor_init (reads (sample_long 100001)) no_excel ''big.csv'' ''x'' =
     Some (sample_long 100000) \<and>
   Too_large 100001 100000 \<in>
     set (snd (load_data_logged DataProcessor_init (reads (sample_long 100001)) no_excel ''big.csv'' ''x''))"
proof -
  have r: "fst (read_frame DataProcessor_init (reads (sample_long 100001)) no_excel ''big.csv'' ''x'') =
     Some (sample_long 100001)"
    by (simp add: read_frame_def last_part_def str_lower_def less_eq_char_def
          DataProcessor_init_def reads_def)
  have n: "100000 < length (rows (sample_long 100001))"
    by (simp add: sample_long_def)
  have c: "columns (sample_long 100001) \<noteq> []"
    by (simp add: sample_long_def)
  have t: "(sample_long 100001)\<lparr>rows := take 100000 (rows (sample_long 100001))\<rparr> = sample_long 100000"
    by (simp add: sample_long_def take_map)
  have l: "length (rows (sample_long 100001)) = 100001"
    by (simp add: sample_long_def)
  from load_data_truncates [OF r n c] r n c show ?thesis
    by (simp add: t l)
qed

section \<open>The input frame of a cleaning operation\<close>

text \<open>
  C2, as claimed: no cleaning operation changes the table it was given.  It fails for
  \<open>handle_missing_values\<close> with \<open>fill_mean\<close>: on a table whose column \<open>v\<close> holds 1, a
  missing value and 3, the call assigns the filled column into the table it was given,
  which afterwards holds 1, 2, 3, and returns that same table.
\<close>

theorem fill_mean_overwrites_input:
  "[sample_gap] ! 0 = sample_gap \<and>
   fst (handle_missing_values_ref exact [sample_gap] 0 ''fill_mean'') = 0 \<and>
   snd (handle_missing_values_ref exact [sample_gap] 0 ''fill_mean'') ! 0 =
     \<lparr>columns = [(''v'', Float64), (''tag'', Object)],
      rows = [(0, [Num 1, Str ''a'']), (1, [Num 2, Null]), (2, [Num 3, Str ''a''])]\<rparr> \<and>
   snd (handle_missing_values_ref exact [sample_gap] 0 ''fill_mean'') ! 0 \<noteq> sample_gap"
  by (simp add: handle_missing_values_ref_def sample_gap_def fill_numeric_def numeric_columns_def
        is_numeric_def column_def exact_def exact_mean_def fillna_column_def upt_rec)

text \<open>
  C2, amended.  \<open>remove_duplicates\<close> and \<open>handle_missing_values\<close> with \<open>drop\<close> return
  a new table and leave the table they were given unchanged; \<open>remove_outliers\<close> and
  \<open>handle_missing_values\<close> with an unrecognised strategy leave it unchanged too.
  \<open>handle_missing_values\<close> with \<open>fill_mean\<close>, \<open>fill_median\<close> or \<open>fill_mode\<close> writes
  the filled columns into the table it was given and returns that table: afterwards the
  input holds its numeric columns filled with their means, or with their medians, or its
  object columns filled with their most frequent values.
\<close>

theorem cleaning_and_the_input_frame:
  assumes "df < length h"
  shows "snd (remove_duplicates_ref h df) ! df = h ! df \<and>
         fst (remove_duplicates_ref h df) \<noteq> df \<and>
         snd (remove_outliers_ref iso_forest h df) ! df = h ! df \<and>
         snd (handle_missing_values_ref fp h df strategy) ! df =
           (if strategy = ''fill_mean'' then fill_numeric (mean fp) (h ! df)
            else if strategy = ''fill_median'' then fill_numeric (median fp) (h ! df)
            else if strategy = ''fill_mode'' then fill_mode (h ! df)
            else h ! df) \<and>
         fst (handle_missing_values_ref fp h df strategy) =
           (if strategy = ''drop'' then length h else df)"
proof -
  have 1: "snd (remove_duplicates_ref h df) ! df = h ! df"
    using assms by (simp add: remove_duplicates_ref_def alloc_def nth_append)
  have 2: "fst (remove_duplicates_ref h df) \<noteq> df"
    using assms by (simp add: remove_duplicates_ref_def alloc_def)
  have 3: "snd (remove_outliers_ref iso_forest h df) ! df = h ! df"
    using assms by (simp add: remove_outliers_ref_def alloc_def nth_append Let_def split: option.splits)
  have 4: "snd (handle_missing_values_ref fp h df strategy) ! df =
           (if strategy = ''fill_mean'' then fill_numeric (mean fp) (h ! df)
            else if strategy = ''fill_median'' then fill_numeric (median fp) (h ! df)
            else if strategy = ''fill_mode'' then fill_mode (h ! df)
            else h ! df)"
    using assms by (simp add: handle_missing_values_ref_def alloc_def nth_append)
  have 5: "fst (handle_missing_values_ref fp h df strategy) =
           (if strategy = ''drop'' then length h else df)"
    by (simp add: handle_missing_values_ref_def alloc_def)
  from 1 2 3 4 5 show ?thesis by blast
qed

theorem cleaning_and_the_input_frame_witness:
  "(0::nat) < length [sample_gap] \<and>
   snd (remove_duplicates_ref [sample_gap] 0) ! 0 = sample_gap \<and>
   snd (remove_outliers_ref flags_all [sample_gap] 0) ! 0 = sample_gap \<and>
   snd (handle_missing_values_ref exact [sample_gap] 0 ''drop'') ! 0 = sample_gap \<and>
   fst (handle_missing_values_ref exact [sample_gap] 0 ''drop'') = 1 \<and>
   snd (handle_missing_values_ref exact [sample_gap] 0 ''fill_median'') ! 0 =
     \<lparr>columns = [(''v'', Float64), (''tag'', Object)],
      rows = [(0, [Num 1, Str ''a'']), (1, [Num 2, Null]), (2, [Num 3, Str ''a''])]\<rparr> \<and>
   snd (handle_missing_values_ref exact [sample_gap] 0 ''fill_mode'') ! 0 =
     \<lparr>columns = [(''v'', Float64), (''tag'', Object)],
      rows = [(0, [Num 1, Str ''a'']), (1, [Null, Str ''a'']), (2, [Num 3, Str ''a''])]\<rparr> \<and>
   fst (handle_missing_values_ref exact [sample_gap] 0 ''fill_median'') = 0"
proof -
  have m: "fill_numeric (median exact) sample_gap =
     \<lparr>columns = [(''v'', Float64), (''tag'', Object)],
      rows = [(0, [Num 1, Str ''a'']), (1, [Num 2, Null]), (2, [Num 3, Str ''a''])]\<rparr>"
    by (simp add: sample_gap_def fill_numeric_def numeric_columns_def is_numeric_def column_def
          exact_def exact_median_def fillna_column_def upt_rec)
  have o: "fill_mode sample_gap =
     \<lparr>columns = [(''v'', Float64), (''tag'', Object)],
      rows = [(0, [Num 1, Str ''a'']), (1, [Null, Str ''a'']), (2, [Num 3, Str ''a''])]\<rparr>"
    by (simp add: sample_gap_def fill_mode_def mode_first_def fillna_column_def upt_rec)
  from
    cleaning_and_the_input_frame
      [where df = 0 and h = "[sample_gap]" and iso_forest = flags_all and fp = exact
         and strategy = "''drop''"]
    cleaning_and_the_input_frame
      [where df = 0 and h = "[sample_gap]" and iso_forest = flags_all and fp = exact
         and strategy = "''fill_median''"]
    cleaning_and_the_input_frame
      [where df = 0 and h = "[sample_gap]" and iso_forest = flags_all and fp = exact
         and strategy = "''fill_mode''"]
    m o
  show ?thesis by simp
qed

end
